theory Spec2Isabelle
  imports Main "HOL-Library.AList"
begin

section \<open>Constants\<close>

definition walletsDirName :: string where
  "walletsDirName = ''TON Wallet''"

definition currentWalletDirName :: string where
  "currentWalletDirName = ''data''"

section \<open>The wallets directory and the operating-system calls\<close>

text \<open>
  Every operation runs after \<open>os.Chdir(config.WalletsDir)\<close>, and every path it hands to the
  \<open>os\<close> package is a bare wallet name. The model therefore holds the contents of that one
  directory: an association list from entry name to node, in the order the directory
  enumerates them.
\<close>

datatype node = File | Dir "(string \<times> node) list"

type_synonym directory = "(string \<times> node) list"

text \<open>
  The errors of the \<open>os\<close> package that the model tells apart. \<open>Unmodelled\<close> is no error of
  the operating system: it marks a call on a path the model does not follow, and says
  nothing about what the call does.
\<close>

datatype errno = ENOENT | EEXIST | ENOTDIR | ENAMETOOLONG | EINVAL | Unmodelled

fun IsDir :: "node \<Rightarrow> bool" where
  "IsDir File = False"
| "IsDir (Dir entries) = True"

text \<open>
  Not every string names an entry of the wallets directory. A string with a NUL byte is
  refused by every call with \<open>EINVAL\<close> before the kernel sees it. The empty string is
  \<open>ENOENT\<close>. A name of more than 255 bytes is \<open>ENAMETOOLONG\<close>. A string with a slash, and
  the names \<open>.\<close> and \<open>..\<close>, are paths that lead out of the list of entries: the model does
  not follow them, and every call on one answers \<open>Unmodelled\<close>. The remaining strings are
  the valid names, the only ones an entry of a directory can have.
\<close>

definition hasNul :: "string \<Rightarrow> bool" where
  "hasNul name = (CHR 0x00 \<in> set name)"

definition pathLike :: "string \<Rightarrow> bool" where
  "pathLike name = (CHR ''/'' \<in> set name \<or> name = ''.'' \<or> name = ''..'')"

definition validName :: "string \<Rightarrow> bool" where
  "validName name = (name \<noteq> [] \<and> length name \<le> 255 \<and> \<not> hasNul name \<and> \<not> pathLike name)"

text \<open>A name of 256 bytes, one more than a directory takes.\<close>

definition longName :: string where
  "longName = replicate 256 (CHR ''x'')"

definition os_Stat :: "string \<Rightarrow> directory \<Rightarrow> errno + node" where
  "os_Stat name d =
     (if hasNul name then Inl EINVAL
      else if pathLike name then Inl Unmodelled
      else if name = [] then Inl ENOENT
      else if 255 < length name then Inl ENAMETOOLONG
      else case map_of d name of None \<Rightarrow> Inl ENOENT | Some n \<Rightarrow> Inr n)"

text \<open>
  \<open>os.Rename\<close> on Unix first looks at the new name: when it is an existing directory the
  call fails, with the error of the old name if that cannot be looked up and with
  \<open>EEXIST\<close> otherwise, so a directory is never replaced. Otherwise \<open>rename(2)\<close> runs: it
  looks the old name up first and fails with its error; then an empty new name is
  \<open>ENOENT\<close>, a new name that is too long is \<open>ENAMETOOLONG\<close>, a directory cannot replace a
  file (\<open>ENOTDIR\<close>), a file replaces a file, and renaming a file to itself changes
  nothing.
\<close>

definition os_Rename :: "string \<Rightarrow> string \<Rightarrow> directory \<Rightarrow> errno + directory" where
  "os_Rename oldname newname d =
     (if hasNul oldname \<or> hasNul newname then Inl EINVAL
      else if pathLike oldname \<or> pathLike newname then Inl Unmodelled
      else
        (case os_Stat newname d of
           Inr (Dir entries) \<Rightarrow>
             (case os_Stat oldname d of Inl e \<Rightarrow> Inl e | Inr ofi \<Rightarrow> Inl EEXIST)
         | Inr File \<Rightarrow>
             (case os_Stat oldname d of
                Inl e \<Rightarrow> Inl e
              | Inr (Dir entries) \<Rightarrow> Inl ENOTDIR
              | Inr File \<Rightarrow>
                  if oldname = newname then Inr d
                  else Inr (AList.update newname File (AList.delete oldname d)))
         | Inl e \<Rightarrow>
             (case os_Stat oldname d of
                Inl e' \<Rightarrow> Inl e'
              | Inr n \<Rightarrow>
                  if e = ENOENT \<and> newname \<noteq> []
                  then Inr (AList.update newname n (AList.delete oldname d))
                  else Inl e)))"

text \<open>\<open>os.RemoveAll\<close> deletes the entry with everything below it; a missing entry and the
  empty path are no error, a name that cannot be looked up is one.\<close>

definition os_RemoveAll :: "string \<Rightarrow> directory \<Rightarrow> errno + directory" where
  "os_RemoveAll path d =
     (if path = [] then Inr d
      else if hasNul path then Inl EINVAL
      else if pathLike path then Inl Unmodelled
      else if 255 < length path then Inl ENAMETOOLONG
      else Inr (AList.delete path d))"

text \<open>\<open>os.ReadDir\<close> of the wallets directory: the names of its entries. An element of the
  list under a string that is no valid name is no entry. The model has no unreadable
  directory, so the call always succeeds; the callers keep their error branch.\<close>

definition os_ReadDir :: "directory \<Rightarrow> errno + string list" where
  "os_ReadDir d = Inr (filter validName (map fst d))"

section \<open>Configuration, environment and errors\<close>

record Config =
  configFilePath :: string
  WalletsDir :: string
  CurrentWallet :: string
  Wallets :: "string \<rightharpoonup> string"

text \<open>
  What an operation touches besides the \<open>Config\<close> it is handed: the wallets directory on
  disk, the lines still to be read from standard input, and the order in which a
  \<open>range\<close> over the wallets map meets the keys during this run. Go leaves that order open.
  Names of the list that are no key are skipped, and a run of the program is a world whose
  list holds every key of the map: there a \<open>range\<close> over a map with a key meets one.
\<close>

record world =
  disk :: directory
  stdin :: "string list"
  rangeOrder :: "string list"

text \<open>
  The errors of the operations, one constructor per message of the program:
  \<open>already switched to wallet\<close>, \<open>no wallet ... present\<close>, \<open>is not a directory\<close>,
  \<open>is not a wallet directory\<close>, \<open>operation aborted\<close>, an error passed on from the \<open>os\<close>
  package, the fatal exit of \<open>scanLine\<close> when standard input has ended, and the nil
  dereference of a missing \<open>FileInfo\<close>.
\<close>

datatype error =
    AlreadyActive string
  | NotFound string
  | NotADirectory string
  | NotAWalletDirectory string
  | Aborted
  | IOError errno
  | ScanFailed
  | Panic

text \<open>An operation mutates the \<open>Config\<close> behind its pointer and the world, and returns an
  error or nil: the model returns all three, also when the call fails.\<close>

type_synonym result = "error option \<times> Config \<times> world"

definition scanLine :: "world \<Rightarrow> string option \<times> world" where
  "scanLine w =
     (case stdin w of
        [] \<Rightarrow> (None, w)
      | l # ls \<Rightarrow> (Some l, w\<lparr>stdin := ls\<rparr>))"

text \<open>Indexing a Go map without the \<open>ok\<close> result: a missing key reads as the empty string.\<close>

definition index :: "(string \<rightharpoonup> string) \<Rightarrow> string \<Rightarrow> string" where
  "index m k = (case m k of None \<Rightarrow> [] | Some v \<Rightarrow> v)"

text \<open>
  The prompt loop of \<open>addWallet\<close> and of \<open>Edit\<close>: read a line, take the default for an empty
  line, and leave the loop with the first name that is not the reserved one. The loop ends
  without a name when the input ends first.
\<close>

fun nameLoop :: "string \<Rightarrow> string list \<Rightarrow> string option \<times> string list" where
  "nameLoop dflt [] = (None, [])"
| "nameLoop dflt (l # ls) =
     (if (if l = [] then dflt else l) \<noteq> currentWalletDirName
      then (Some (if l = [] then dflt else l), ls)
      else nameLoop dflt ls)"

section \<open>Discovery\<close>

text \<open>
  The program hands \<open>isWalletDir\<close> and \<open>getWallets\<close> the path of the wallets directory, which
  is the working directory; the model hands them the directory itself.
  \<open>filepath.Join\<close> drops an empty element, so for the empty name the file \<open>salt\<close> is looked
  for in the wallets directory itself.
\<close>

definition isWalletDir :: "directory \<Rightarrow> string \<Rightarrow> bool" where
  "isWalletDir walletsDir walletDir =
     (case (if walletDir = [] then Inr (Dir walletsDir) else os_Stat walletDir walletsDir) of
        Inr (Dir entries) \<Rightarrow>
          (case os_Stat ''salt'' entries of Inr saltFileInfo \<Rightarrow> \<not> IsDir saltFileInfo | Inl e \<Rightarrow> False)
      | Inr File \<Rightarrow> False
      | Inl e \<Rightarrow> False)"

definition getWallets :: "directory \<Rightarrow> errno + string list" where
  "getWallets walletsDir =
     (case os_ReadDir walletsDir of
        Inl e \<Rightarrow> Inl e
      | Inr walletEntries \<Rightarrow> Inr (filter (isWalletDir walletsDir) walletEntries))"

section \<open>The operations of the program with \<open>Remove\<close> (src/unnamed/part_001)\<close>

definition addWallet :: "Config \<Rightarrow> string \<Rightarrow> bool \<Rightarrow> world \<Rightarrow> result" where
  "addWallet config walletDirName changeCurrentWallet w =
     (case (if walletDirName = currentWalletDirName then nameLoop walletDirName (stdin w)
            else (Some walletDirName, stdin w)) of
        (None, rest) \<Rightarrow> (Some ScanFailed, config, w\<lparr>stdin := rest\<rparr>)
      | (Some walletName, rest) \<Rightarrow>
          (case scanLine (w\<lparr>stdin := rest\<rparr>) of
             (None, w') \<Rightarrow>
               (Some ScanFailed,
                (if changeCurrentWallet \<and> walletDirName = currentWalletDirName
                 then config\<lparr>CurrentWallet := walletName\<rparr> else config), w')
           | (Some description, w') \<Rightarrow>
               (None,
                (if changeCurrentWallet \<and> walletDirName = currentWalletDirName
                 then config\<lparr>CurrentWallet := walletName\<rparr> else config)
                  \<lparr>Wallets := (Wallets config)(walletName \<mapsto> description)\<rparr>, w')))"

definition Switch :: "Config \<Rightarrow> string \<Rightarrow> world \<Rightarrow> result" where
  "Switch config walletName w =
     (if CurrentWallet config = walletName then (Some (AlreadyActive walletName), config, w)
      else if Wallets config walletName = None then (Some (NotFound walletName), config, w)
      else
        (case (if CurrentWallet config \<noteq> []
               then os_Rename currentWalletDirName (CurrentWallet config) (disk w)
               else Inr (disk w)) of
           Inl e \<Rightarrow> (Some (IOError e), config, w)
         | Inr d1 \<Rightarrow>
             (case os_Rename walletName currentWalletDirName d1 of
                Inl e \<Rightarrow>
                  if e = ENOENT
                  then (None, config\<lparr>CurrentWallet := walletName\<rparr>, w\<lparr>disk := d1\<rparr>)
                  else (Some (IOError e), config, w\<lparr>disk := d1\<rparr>)
              | Inr d2 \<Rightarrow> (None, config\<lparr>CurrentWallet := walletName\<rparr>, w\<lparr>disk := d2\<rparr>))))"

definition switchToFirstWallet :: "Config \<Rightarrow> world \<Rightarrow> result" where
  "switchToFirstWallet config w =
     (case find (\<lambda>name. Wallets config name \<noteq> None) (rangeOrder w) of
        None \<Rightarrow> (None, config, w)
      | Some name \<Rightarrow> Switch config name w)"

fun Init_loop :: "Config \<Rightarrow> string list \<Rightarrow> world \<Rightarrow> result" where
  "Init_loop config [] w = (None, config, w)"
| "Init_loop config (walletDirName # wallets) w =
     (case addWallet config walletDirName True w of
        (Some err, config', w') \<Rightarrow> (Some err, config', w')
      | (None, config', w') \<Rightarrow> Init_loop config' wallets w')"

definition Init :: "Config \<Rightarrow> world \<Rightarrow> result" where
  "Init config w =
     (case getWallets (disk w) of
        Inl e \<Rightarrow> (Some (IOError e), config, w)
      | Inr wallets \<Rightarrow>
          (case Init_loop (config\<lparr>Wallets := Map.empty, CurrentWallet := []\<rparr>) wallets w of
             (Some err, config', w') \<Rightarrow> (Some err, config', w')
           | (None, config', w') \<Rightarrow>
               if CurrentWallet config' = [] then switchToFirstWallet config' w'
               else (None, config', w')))"

text \<open>The last two statements of \<open>Edit\<close>: the new key is stored before the old one is
  deleted.\<close>

definition Edit_store :: "Config \<Rightarrow> string \<Rightarrow> string \<Rightarrow> string \<Rightarrow> Config" where
  "Edit_store config walletName newWalletName newWalletDescription =
     (if walletName \<noteq> newWalletName
      then config\<lparr>Wallets := ((Wallets config)(newWalletName \<mapsto> newWalletDescription))(walletName := None)\<rparr>
      else config\<lparr>Wallets := (Wallets config)(newWalletName \<mapsto> newWalletDescription)\<rparr>)"

definition Edit :: "Config \<Rightarrow> string \<Rightarrow> world \<Rightarrow> result" where
  "Edit config walletName w =
     (if Wallets config walletName = None then (Some (NotFound walletName), config, w)
      else
        (case nameLoop walletName (stdin w) of
           (None, rest) \<Rightarrow> (Some ScanFailed, config, w\<lparr>stdin := rest\<rparr>)
         | (Some newWalletName, rest) \<Rightarrow>
             (case scanLine (w\<lparr>stdin := rest\<rparr>) of
                (None, w1) \<Rightarrow> (Some ScanFailed, config, w1)
              | (Some line, w1) \<Rightarrow>
                  if CurrentWallet config = walletName
                  then (None,
                        Edit_store (config\<lparr>CurrentWallet := newWalletName\<rparr>) walletName newWalletName
                          (if line = [] then index (Wallets config) walletName else line),
                        w1)
                  else if newWalletName \<noteq> walletName
                  then (case os_Rename walletName newWalletName (disk w1) of
                          Inl e \<Rightarrow> (Some (IOError e), config, w1)
                        | Inr d \<Rightarrow>
                            (None,
                             Edit_store config walletName newWalletName
                               (if line = [] then index (Wallets config) walletName else line),
                             w1\<lparr>disk := d\<rparr>))
                  else (None,
                        Edit_store config walletName newWalletName
                          (if line = [] then index (Wallets config) walletName else line),
                        w1))))"

definition Add :: "Config \<Rightarrow> string \<Rightarrow> world \<Rightarrow> result" where
  "Add config walletDirName w =
     (case os_Stat walletDirName (disk w) of
        Inr walletDirInfo \<Rightarrow>
          if \<not> IsDir walletDirInfo then (Some (NotADirectory walletDirName), config, w)
          else if \<not> isWalletDir (disk w) walletDirName
          then (Some (NotAWalletDirectory walletDirName), config, w)
          else (case addWallet config walletDirName False w of
                  (Some err, config', w') \<Rightarrow> (Some err, config', w')
                | (None, config', w') \<Rightarrow> Switch config' walletDirName w')
      | Inl e \<Rightarrow>
          if e \<noteq> ENOENT then (Some Panic, config, w)
          else (case addWallet config walletDirName False w of
                  (Some err, config', w') \<Rightarrow> (Some err, config', w')
                | (None, config', w') \<Rightarrow> Switch config' walletDirName w'))"

definition Forget :: "Config \<Rightarrow> string \<Rightarrow> world \<Rightarrow> result" where
  "Forget config walletName w =
     (if Wallets config walletName = None then (Some (NotFound walletName), config, w)
      else if CurrentWallet config = walletName
      then (case os_Rename currentWalletDirName walletName (disk w) of
              Inl e \<Rightarrow>
                if e = ENOENT
                then switchToFirstWallet
                       (config\<lparr>Wallets := (Wallets config)(walletName := None), CurrentWallet := []\<rparr>) w
                else (Some (IOError e), config, w)
            | Inr d \<Rightarrow>
                switchToFirstWallet
                  (config\<lparr>Wallets := (Wallets config)(walletName := None), CurrentWallet := []\<rparr>)
                  (w\<lparr>disk := d\<rparr>))
      else (None, config\<lparr>Wallets := (Wallets config)(walletName := None)\<rparr>, w))"

definition Remove :: "Config \<Rightarrow> string \<Rightarrow> world \<Rightarrow> result" where
  "Remove config walletName w =
     (if Wallets config walletName = None then (Some (NotFound walletName), config, w)
      else
        (case scanLine w of
           (None, w1) \<Rightarrow> (Some ScanFailed, config, w1)
         | (Some confirmation, w1) \<Rightarrow>
             if confirmation = ''yes''
             then (case Forget config walletName w1 of
                     (Some err, config', w2) \<Rightarrow> (Some err, config', w2)
                   | (None, config', w2) \<Rightarrow>
                       (case os_RemoveAll walletName (disk w2) of
                          Inl e \<Rightarrow>
                            if e = ENOENT then (None, config', w2)
                            else (Some (IOError e), config', w2)
                        | Inr d \<Rightarrow> (None, config', w2\<lparr>disk := d\<rparr>)))
             else (Some Aborted, config, w1)))"

section \<open>The operations of the program without \<open>Remove\<close> (src/main.go)\<close>

text \<open>
  The repository holds a second text of the program, in which \<open>Switch\<close> does not look the
  name up in the wallets map and \<open>Edit\<close> and \<open>Forget\<close> test the description of the wallet
  against the empty string instead of testing the key. Its functions carry the suffix
  \<open>_main\<close> here. Discovery, \<open>scanLine\<close> and the prompt loops are the same; \<open>addWallet\<close> has
  one more parameter, which it never reads.
\<close>

definition addWallet_main :: "Config \<Rightarrow> string \<Rightarrow> bool \<Rightarrow> bool \<Rightarrow> world \<Rightarrow> result" where
  "addWallet_main config walletDirName walletExists changeCurrentWallet w =
     (case (if walletDirName = currentWalletDirName then nameLoop walletDirName (stdin w)
            else (Some walletDirName, stdin w)) of
        (None, rest) \<Rightarrow> (Some ScanFailed, config, w\<lparr>stdin := rest\<rparr>)
      | (Some walletName, rest) \<Rightarrow>
          (case scanLine (w\<lparr>stdin := rest\<rparr>) of
             (None, w') \<Rightarrow>
               (Some ScanFailed,
                (if changeCurrentWallet \<and> walletDirName = currentWalletDirName
                 then config\<lparr>CurrentWallet := walletName\<rparr> else config), w')
           | (Some description, w') \<Rightarrow>
               (None,
                (if changeCurrentWallet \<and> walletDirName = currentWalletDirName
                 then config\<lparr>CurrentWallet := walletName\<rparr> else config)
                  \<lparr>Wallets := (Wallets config)(walletName \<mapsto> description)\<rparr>, w')))"

definition Switch_main :: "Config \<Rightarrow> string \<Rightarrow> world \<Rightarrow> result" where
  "Switch_main config walletName w =
     (if CurrentWallet config = walletName then (Some (AlreadyActive walletName), config, w)
      else
        (case (if CurrentWallet config \<noteq> []
               then os_Rename currentWalletDirName (CurrentWallet config) (disk w)
               else Inr (disk w)) of
           Inl e \<Rightarrow> (Some (IOError e), config, w)
         | Inr d1 \<Rightarrow>
             (case os_Rename walletName currentWalletDirName d1 of
                Inl e \<Rightarrow>
                  if e = ENOENT
                  then (None, config\<lparr>CurrentWallet := walletName\<rparr>, w\<lparr>disk := d1\<rparr>)
                  else (Some (IOError e), config, w\<lparr>disk := d1\<rparr>)
              | Inr d2 \<Rightarrow> (None, config\<lparr>CurrentWallet := walletName\<rparr>, w\<lparr>disk := d2\<rparr>))))"

definition switchToFirstWallet_main :: "Config \<Rightarrow> world \<Rightarrow> result" where
  "switchToFirstWallet_main config w =
     (case find (\<lambda>name. Wallets config name \<noteq> None) (rangeOrder w) of
        None \<Rightarrow> (None, config, w)
      | Some name \<Rightarrow> Switch_main config name w)"

fun Init_loop_main :: "Config \<Rightarrow> string list \<Rightarrow> world \<Rightarrow> result" where
  "Init_loop_main config [] w = (None, config, w)"
| "Init_loop_main config (walletDirName # wallets) w =
     (case addWallet_main config walletDirName True True w of
        (Some err, config', w') \<Rightarrow> (Some err, config', w')
      | (None, config', w') \<Rightarrow> Init_loop_main config' wallets w')"

definition Init_main :: "Config \<Rightarrow> world \<Rightarrow> result" where
  "Init_main config w =
     (case getWallets (disk w) of
        Inl e \<Rightarrow> (Some (IOError e), config, w)
      | Inr wallets \<Rightarrow>
          (case Init_loop_main (config\<lparr>Wallets := Map.empty, CurrentWallet := []\<rparr>) wallets w of
             (Some err, config', w') \<Rightarrow> (Some err, config', w')
           | (None, config', w') \<Rightarrow>
               if CurrentWallet config' = [] then switchToFirstWallet_main config' w'
               else (None, config', w')))"

definition Edit_main :: "Config \<Rightarrow> string \<Rightarrow> world \<Rightarrow> result" where
  "Edit_main config walletName w =
     (if index (Wallets config) walletName = [] then (Some (NotFound walletName), config, w)
      else
        (case nameLoop walletName (stdin w) of
           (None, rest) \<Rightarrow> (Some ScanFailed, config, w\<lparr>stdin := rest\<rparr>)
         | (Some newWalletName, rest) \<Rightarrow>
             (case scanLine (w\<lparr>stdin := rest\<rparr>) of
                (None, w1) \<Rightarrow> (Some ScanFailed, config, w1)
              | (Some line, w1) \<Rightarrow>
                  if CurrentWallet config = walletName
                  then (None,
                        Edit_store (config\<lparr>CurrentWallet := newWalletName\<rparr>) walletName newWalletName
                          (if line = [] then index (Wallets config) walletName else line),
                        w1)
                  else if newWalletName \<noteq> walletName
                  then (case os_Rename walletName newWalletName (disk w1) of
                          Inl e \<Rightarrow> (Some (IOError e), config, w1)
                        | Inr d \<Rightarrow>
                            (None,
                             Edit_store config walletName newWalletName
                               (if line = [] then index (Wallets config) walletName else line),
                             w1\<lparr>disk := d\<rparr>))
                  else (None,
                        Edit_store config walletName newWalletName
                          (if line = [] then index (Wallets config) walletName else line),
                        w1))))"

definition Add_main :: "Config \<Rightarrow> string \<Rightarrow> world \<Rightarrow> result" where
  "Add_main config walletDirName w =
     (case os_Stat walletDirName (disk w) of
        Inr walletDirInfo \<Rightarrow>
          if \<not> IsDir walletDirInfo then (Some (NotADirectory walletDirName), config, w)
          else if \<not> isWalletDir (disk w) walletDirName
          then (Some (NotAWalletDirectory walletDirName), config, w)
          else (case addWallet_main config walletDirName True False w of
                  (Some err, config', w') \<Rightarrow> (Some err, config', w')
                | (None, config', w') \<Rightarrow> Switch_main config' walletDirName w')
      | Inl e \<Rightarrow>
          if e \<noteq> ENOENT then (Some Panic, config, w)
          else (case addWallet_main config walletDirName False False w of
                  (Some err, config', w') \<Rightarrow> (Some err, config', w')
                | (None, config', w') \<Rightarrow> Switch_main config' walletDirName w'))"

definition Forget_main :: "Config \<Rightarrow> string \<Rightarrow> world \<Rightarrow> result" where
  "Forget_main config walletName w =
     (if index (Wallets config) walletName = [] then (Some (NotFound walletName), config, w)
      else if CurrentWallet config = walletName
      then (case os_Rename currentWalletDirName walletName (disk w) of
              Inl e \<Rightarrow>
                if e = ENOENT
                then switchToFirstWallet_main
                       (config\<lparr>Wallets := (Wallets config)(walletName := None), CurrentWallet := []\<rparr>) w
                else (Some (IOError e), config, w)
            | Inr d \<Rightarrow>
                switchToFirstWallet_main
                  (config\<lparr>Wallets := (Wallets config)(walletName := None), CurrentWallet := []\<rparr>)
                  (w\<lparr>disk := d\<rparr>))
      else (None, config\<lparr>Wallets := (Wallets config)(walletName := None)\<rparr>, w))"

section \<open>The invariant of the record and the records a run can reach\<close>

text \<open>
  The active wallet is empty or a key of the wallets map, it is not the reserved name,
  and the reserved name is no key.
\<close>

definition lawful :: "Config \<Rightarrow> bool" where
  "lawful config =
     ((CurrentWallet config = [] \<or> Wallets config (CurrentWallet config) \<noteq> None) \<and>
      CurrentWallet config \<noteq> currentWalletDirName \<and>
      Wallets config currentWalletDirName = None)"

text \<open>
  The records that \<open>main\<close> writes back: the one a successful \<open>Init\<close> builds, and the one
  any successful operation makes of a record written before. Each step meets its own
  disk, input and map order, so the disk may have changed between two runs.
\<close>

inductive reachable :: "Config \<Rightarrow> bool" where
  init: "Init config0 w = (None, config, w') \<Longrightarrow> reachable config"
| switch: "reachable config \<Longrightarrow> Switch config name w = (None, config', w') \<Longrightarrow> reachable config'"
| edit: "reachable config \<Longrightarrow> Edit config name w = (None, config', w') \<Longrightarrow> reachable config'"
| add: "reachable config \<Longrightarrow> Add config name w = (None, config', w') \<Longrightarrow> reachable config'"
| forget: "reachable config \<Longrightarrow> Forget config name w = (None, config', w') \<Longrightarrow> reachable config'"
| remove: "reachable config \<Longrightarrow> Remove config name w = (None, config', w') \<Longrightarrow> reachable config'"


section \<open>Facts about the operating-system calls\<close>

lemma validName_currentWalletDirName: "validName currentWalletDirName"
  by (simp add: validName_def hasNul_def pathLike_def currentWalletDirName_def)

lemma os_Stat_valid:
  "validName k \<Longrightarrow> os_Stat k d = (case map_of d k of None \<Rightarrow> Inl ENOENT | Some n \<Rightarrow> Inr n)"
  by (simp add: os_Stat_def validName_def)

lemma os_Stat_Inr: "os_Stat k d = Inr n \<longleftrightarrow> validName k \<and> map_of d k = Some n"
  by (auto simp add: os_Stat_def validName_def split: option.splits if_splits)

lemma os_Stat_ENOENT:
  "os_Stat k d = Inl ENOENT \<longleftrightarrow>
     \<not> hasNul k \<and> \<not> pathLike k \<and> (k = [] \<or> (length k \<le> 255 \<and> map_of d k = None))"
  by (auto simp add: os_Stat_def split: option.splits if_splits)

lemma os_Stat_Inr_names: "os_Stat k d = Inr n \<Longrightarrow> \<not> hasNul k \<and> \<not> pathLike k"
  by (simp add: os_Stat_Inr validName_def)

lemma os_Stat_ENOENT_names: "os_Stat k d = Inl ENOENT \<Longrightarrow> \<not> hasNul k \<and> \<not> pathLike k"
  by (simp add: os_Stat_ENOENT)

lemma os_Stat_update:
  "os_Stat k (AList.update k' v d) = (if k = k' \<and> validName k then Inr v else os_Stat k d)"
  by (auto simp add: os_Stat_def validName_def update_conv')

lemma os_Stat_delete:
  "os_Stat k (AList.delete k' d) = (if k = k' \<and> validName k then Inl ENOENT else os_Stat k d)"
  by (auto simp add: os_Stat_def validName_def delete_conv')

lemma longName_length: "length longName = 256"
  by (simp add: longName_def)

lemma longName_differs: "length s \<noteq> 256 \<Longrightarrow> longName \<noteq> s \<and> s \<noteq> longName"
  using longName_length by auto

lemma longName_names: "\<not> hasNul longName \<and> \<not> pathLike longName \<and> longName \<noteq> []"
proof -
  have "set longName = {CHR ''x''}" by (simp add: longName_def)
  moreover have "longName \<noteq> ''.''" "longName \<noteq> ''..''" "longName \<noteq> []"
    using longName_differs[of "''.''"] longName_differs[of "''..''"] longName_differs[of "[]"]
    by simp_all
  ultimately show ?thesis by (simp add: hasNul_def pathLike_def)
qed

lemma os_Stat_longName: "os_Stat longName d = Inl ENAMETOOLONG"
  using longName_names by (simp add: os_Stat_def longName_length)

lemma os_Rename_fresh:
  assumes "os_Stat old d = Inr n" "os_Stat new d = Inl ENOENT" "new \<noteq> []"
  shows "os_Rename old new d = Inr (AList.update new n (AList.delete old d))"
  using assms os_Stat_Inr_names[OF assms(1)] os_Stat_ENOENT_names[OF assms(2)]
  by (simp add: os_Rename_def)

lemma os_Rename_missing:
  assumes "os_Stat old d = Inl ENOENT" "validName new"
  shows "os_Rename old new d = Inl ENOENT"
proof -
  have names: "\<not> hasNul old" "\<not> pathLike old" "\<not> hasNul new" "\<not> pathLike new"
    using os_Stat_ENOENT_names[OF assms(1)] assms(2) by (simp_all add: validName_def)
  show ?thesis
  proof (cases "os_Stat new d")
    case (Inl e)
    then show ?thesis using assms(1) names by (simp add: os_Rename_def)
  next
    case (Inr node)
    then show ?thesis using assms(1) names by (cases node) (simp_all add: os_Rename_def)
  qed
qed

lemma os_Rename_onto_directory:
  assumes "os_Stat old d = Inr n" "os_Stat new d = Inr (Dir entries)"
  shows "os_Rename old new d = Inl EEXIST"
  using assms os_Stat_Inr_names[OF assms(1)] os_Stat_Inr_names[OF assms(2)]
  by (simp add: os_Rename_def)

lemma os_Rename_to_longName:
  assumes "os_Stat old d = Inr n"
  shows "os_Rename old longName d = Inl ENAMETOOLONG"
  using assms os_Stat_Inr_names[OF assms] longName_names
  by (simp add: os_Rename_def os_Stat_longName)

text \<open>
  \<open>Add\<close> asks \<open>os.Stat\<close> whether the name exists and takes every error but \<open>ENOENT\<close> for
  a yes: for a name that is too long it goes on to read the \<open>FileInfo\<close> it was not given.
\<close>

lemma Add_longName: "Add c longName w = (Some Panic, c, w)"
  by (simp add: Add_def os_Stat_longName)

lemma Add_main_longName: "Add_main c longName w = (Some Panic, c, w)"
  by (simp add: Add_main_def os_Stat_longName)



lemma find_no_key: "find (\<lambda>name. False) xs = None"
  by (induction xs) simp_all

lemma only_key_removed: "dom m = {k} \<Longrightarrow> m(k := None) = Map.empty"
  by (auto simp add: fun_eq_iff dom_def)

lemma nameLoop_not_reserved:
  "nameLoop dflt ls = (Some n, rest) \<Longrightarrow> n \<noteq> currentWalletDirName"
  by (induction ls) (auto split: if_splits)

section \<open>The first wallet of a \<open>range\<close>\<close>

text \<open>In a world whose order holds a key of the map, \<open>switchToFirstWallet\<close> switches to a
  key, as the \<open>range\<close> over a map that is not empty does.\<close>

lemma switchToFirstWallet_switches:
  assumes "Wallets c k \<noteq> None" "k \<in> set (rangeOrder w)"
  shows "\<exists>name. Wallets c name \<noteq> None \<and> switchToFirstWallet c w = Switch c name w"
proof (cases "find (\<lambda>name. Wallets c name \<noteq> None) (rangeOrder w)")
  case None
  then show ?thesis using assms by (auto simp add: find_None_iff)
next
  case (Some name)
  then have "Wallets c name \<noteq> None" by (auto simp add: find_Some_iff)
  then show ?thesis using Some by (auto simp add: switchToFirstWallet_def)
qed

section \<open>Where the two texts of the program agree\<close>

text \<open>
  The two texts differ in three places only: \<open>Switch\<close> to a name that is no key, \<open>Edit\<close> and
  \<open>Forget\<close> of a wallet whose description is empty, and, through \<open>Switch\<close>, \<open>Add\<close> of the
  reserved name. Everywhere else they compute the same result.
\<close>

lemma Switch_main_known:
  "Wallets c name \<noteq> None \<Longrightarrow> Switch_main c name w = Switch c name w"
  by (auto simp add: Switch_main_def Switch_def)

lemma switchToFirstWallet_main_eq:
  "switchToFirstWallet_main c w = switchToFirstWallet c w"
proof (cases "find (\<lambda>name. Wallets c name \<noteq> None) (rangeOrder w)")
  case None
  then show ?thesis by (simp add: switchToFirstWallet_main_def switchToFirstWallet_def)
next
  case (Some name)
  then have "Wallets c name \<noteq> None" by (auto simp add: find_Some_iff)
  then show ?thesis
    using Some by (simp add: switchToFirstWallet_main_def switchToFirstWallet_def Switch_main_known)
qed

lemma addWallet_main_eq:
  "addWallet_main c dirName walletExists flag w = addWallet c dirName flag w"
  by (simp add: addWallet_main_def addWallet_def)

lemma Init_loop_main_eq: "Init_loop_main c dirs w = Init_loop c dirs w"
  by (induction dirs arbitrary: c w) (simp_all add: addWallet_main_eq split: prod.splits option.splits)

lemma Init_main_eq: "Init_main c w = Init c w"
  by (simp add: Init_main_def Init_def Init_loop_main_eq switchToFirstWallet_main_eq
      split: sum.splits prod.splits option.splits)

lemma Edit_main_described:
  "index (Wallets c) name \<noteq> [] \<Longrightarrow> Edit_main c name w = Edit c name w"
  by (cases "Wallets c name") (simp_all add: Edit_main_def Edit_def index_def)

lemma Forget_main_described:
  "index (Wallets c) name \<noteq> [] \<Longrightarrow> Forget_main c name w = Forget c name w"
  by (cases "Wallets c name")
     (simp_all add: Forget_main_def Forget_def index_def switchToFirstWallet_main_eq split: sum.splits)

lemma addWallet_stores_dirName:
  "addWallet c dirName flag w = (None, c', w') \<Longrightarrow> dirName \<noteq> currentWalletDirName \<Longrightarrow>
   Wallets c' dirName \<noteq> None"
  by (auto simp add: addWallet_def scanLine_def split: list.splits)

lemma Add_main_other_names:
  "dirName \<noteq> currentWalletDirName \<Longrightarrow> Add_main c dirName w = Add c dirName w"
  by (auto simp add: Add_main_def Add_def addWallet_main_eq Switch_main_known
      split: sum.splits prod.splits option.splits dest: addWallet_stores_dirName)

section \<open>The invariant holds in the program with \<open>Remove\<close>\<close>

lemma addWallet_lawful:
  assumes "addWallet c dirName flag w = (None, c', w')" "lawful c"
  shows "lawful c'"
  using assms
  by (auto simp add: addWallet_def lawful_def scanLine_def
      split: if_splits prod.splits option.splits list.splits dest: nameLoop_not_reserved)

lemma Switch_lawful:
  assumes "Switch c name w = (None, c', w')" "lawful c"
  shows "lawful c'"
  using assms
  by (auto simp add: Switch_def lawful_def split: if_splits sum.splits)

lemma switchToFirstWallet_lawful:
  assumes "switchToFirstWallet c w = (None, c', w')" "lawful c"
  shows "lawful c'"
  using assms
  by (auto simp add: switchToFirstWallet_def split: option.splits dest: Switch_lawful)

lemma Init_loop_lawful:
  "Init_loop c dirs w = (None, c', w') \<Longrightarrow> lawful c \<Longrightarrow> lawful c'"
proof (induction dirs arbitrary: c w)
  case Nil
  then show ?case by simp
next
  case (Cons dir dirs)
  then show ?case
    by (auto split: prod.splits option.splits dest: addWallet_lawful)
qed

lemma Init_lawful:
  assumes "Init c w = (None, c', w')"
  shows "lawful c'"
proof -
  have start: "lawful (c\<lparr>Wallets := Map.empty, CurrentWallet := []\<rparr>)"
    by (simp add: lawful_def currentWalletDirName_def)
  show ?thesis
    using assms start
    by (auto simp add: Init_def split: sum.splits prod.splits option.splits if_splits
        dest: Init_loop_lawful switchToFirstWallet_lawful)
qed

lemma Edit_store_lawful:
  assumes "lawful c" "Wallets c old \<noteq> None" "new \<noteq> currentWalletDirName" "CurrentWallet c \<noteq> old"
  shows "lawful (Edit_store c old new descr)"
  using assms by (auto simp add: Edit_store_def lawful_def split: if_splits)

lemma Edit_store_active_lawful:
  assumes "lawful c" "Wallets c old \<noteq> None" "new \<noteq> currentWalletDirName"
  shows "lawful (Edit_store (c\<lparr>CurrentWallet := new\<rparr>) old new descr)"
  using assms by (auto simp add: Edit_store_def lawful_def split: if_splits)

lemma Edit_lawful:
  assumes "Edit c name w = (None, c', w')" "lawful c"
  shows "lawful c'"
  using assms
  by (auto simp add: Edit_def split: if_splits prod.splits option.splits sum.splits
      dest!: nameLoop_not_reserved intro!: Edit_store_lawful Edit_store_active_lawful)

lemma Add_lawful:
  assumes "Add c name w = (None, c', w')" "lawful c"
  shows "lawful c'"
  using assms
  by (auto simp add: Add_def split: if_splits prod.splits option.splits sum.splits
      dest: addWallet_lawful Switch_lawful)

lemma forgotten_lawful:
  assumes "lawful c"
  shows "lawful (c\<lparr>Wallets := (Wallets c)(name := None), CurrentWallet := []\<rparr>)"
  using assms by (simp add: lawful_def currentWalletDirName_def)

lemma Forget_lawful:
  assumes "Forget c name w = (None, c', w')" "lawful c"
  shows "lawful c'"
proof (cases "CurrentWallet c = name")
  case True
  then show ?thesis
    using assms forgotten_lawful[OF assms(2), of name]
    by (auto simp add: Forget_def split: if_splits sum.splits dest: switchToFirstWallet_lawful)
next
  case False
  then show ?thesis
    using assms by (auto simp add: Forget_def lawful_def split: if_splits)
qed

lemma Remove_lawful:
  assumes "Remove c name w = (None, c', w')" "lawful c"
  shows "lawful c'"
  using assms
  by (auto simp add: Remove_def os_RemoveAll_def split: if_splits prod.splits option.splits sum.splits
      dest: Forget_lawful)

lemma reachable_lawful: "reachable c \<Longrightarrow> lawful c"
  by (induction rule: reachable.induct)
     (auto dest: Init_lawful Switch_lawful Edit_lawful Add_lawful Forget_lawful Remove_lawful)

section \<open>The record invariant (C1)\<close>

text \<open>
  C1 (as it fails in src/main.go): every record reachable from an initialized one has an
  active wallet that is empty or a key of the wallets map. In src/main.go \<open>Switch\<close> does
  not look the name up. \<open>Init\<close> on a directory holding the active slot \<open>data\<close>, with the
  name \<open>a\<close> entered for it, succeeds and yields the record with the one wallet \<open>a\<close>, which
  is active; \<open>Switch\<close> to \<open>b\<close>, which is no key of that record, then succeeds as well,
  moves the slot back to \<open>a\<close> and leaves \<open>b\<close> as the active wallet.
\<close>

theorem Init_then_Switch_main_breaks_invariant:
  "Init_main
     \<lparr>configFilePath = ''cfg'', WalletsDir = ''/w'', CurrentWallet = [], Wallets = Map.empty\<rparr>
     \<lparr>disk = [(''data'', Dir [(''salt'', File)])], stdin = [''a'', ''first''], rangeOrder = []\<rparr>
   = (None,
      \<lparr>configFilePath = ''cfg'', WalletsDir = ''/w'', CurrentWallet = ''a'', Wallets = [''a'' \<mapsto> ''first'']\<rparr>,
      \<lparr>disk = [(''data'', Dir [(''salt'', File)])], stdin = [], rangeOrder = []\<rparr>) \<and>
   Switch_main
     \<lparr>configFilePath = ''cfg'', WalletsDir = ''/w'', CurrentWallet = ''a'', Wallets = [''a'' \<mapsto> ''first'']\<rparr>
     ''b''
     \<lparr>disk = [(''data'', Dir [(''salt'', File)])], stdin = [], rangeOrder = []\<rparr>
   = (None,
      \<lparr>configFilePath = ''cfg'', WalletsDir = ''/w'', CurrentWallet = ''b'', Wallets = [''a'' \<mapsto> ''first'']\<rparr>,
      \<lparr>disk = [(''a'', Dir [(''salt'', File)])], stdin = [], rangeOrder = []\<rparr>) \<and>
   [''a'' \<mapsto> ''first''] ''b'' = None"
  by (simp add: Init_main_def getWallets_def os_ReadDir_def isWalletDir_def addWallet_main_def
      scanLine_def Switch_main_def os_Rename_def os_Stat_def hasNul_def pathLike_def validName_def currentWalletDirName_def)

text \<open>
  The program with \<open>Remove\<close> looks the name up in \<open>Switch\<close>, and there the invariant holds of
  every reachable record, whatever the disk, the input and the map order of each step.
\<close>

lemma reachable_invariant:
  assumes "reachable c"
  shows "(CurrentWallet c = [] \<or> CurrentWallet c \<in> dom (Wallets c)) \<and>
         CurrentWallet c \<noteq> ''data'' \<and> ''data'' \<notin> dom (Wallets c)"
  using reachable_lawful[OF assms]
  by (auto simp add: lawful_def currentWalletDirName_def split: if_splits)

text \<open>The reachable records are not an empty set: \<open>Init\<close> on a directory holding the
  slot reaches the record with the one wallet \<open>a\<close>.\<close>

lemma reachable_example:
  "reachable \<lparr>configFilePath = ''cfg'', WalletsDir = ''/w'', CurrentWallet = ''a'',
               Wallets = [''a'' \<mapsto> ''first'']\<rparr>"
proof -
  have "Init \<lparr>configFilePath = ''cfg'', WalletsDir = ''/w'', CurrentWallet = [], Wallets = Map.empty\<rparr>
          \<lparr>disk = [(''data'', Dir [(''salt'', File)])], stdin = [''a'', ''first''], rangeOrder = []\<rparr>
        = (None,
           \<lparr>configFilePath = ''cfg'', WalletsDir = ''/w'', CurrentWallet = ''a'',
              Wallets = [''a'' \<mapsto> ''first'']\<rparr>,
           \<lparr>disk = [(''data'', Dir [(''salt'', File)])], stdin = [], rangeOrder = []\<rparr>)"
    by (simp add: Init_def getWallets_def os_ReadDir_def isWalletDir_def addWallet_def
        scanLine_def os_Stat_def hasNul_def pathLike_def validName_def currentWalletDirName_def)
  then show ?thesis by (rule reachable.init)
qed

section \<open>Refusals of \<open>Switch\<close> (C2)\<close>

text \<open>
  C2 (as it fails in src/main.go): \<open>Switch\<close> to a name that is not the active wallet and no
  key of the wallets map fails with \<open>NotFound\<close> and changes nothing. In src/main.go the
  call returns no error: with wallet \<open>a\<close> active and the only key, \<open>Switch\<close> to \<open>zzz\<close>
  renames the slot \<open>data\<close> to \<open>a\<close>, finds no directory \<open>zzz\<close>, which it tolerates, and
  records \<open>zzz\<close> as the active wallet.
\<close>

theorem Switch_main_unknown_name:
  "Switch_main
     \<lparr>configFilePath = ''cfg'', WalletsDir = ''/w'', CurrentWallet = ''a'', Wallets = [''a'' \<mapsto> ''first'']\<rparr>
     ''zzz''
     \<lparr>disk = [(''data'', Dir [(''salt'', File)])], stdin = [], rangeOrder = []\<rparr>
   = (None,
      \<lparr>configFilePath = ''cfg'', WalletsDir = ''/w'', CurrentWallet = ''zzz'', Wallets = [''a'' \<mapsto> ''first'']\<rparr>,
      \<lparr>disk = [(''a'', Dir [(''salt'', File)])], stdin = [], rangeOrder = []\<rparr>)"
  by (simp add: Switch_main_def os_Rename_def os_Stat_def hasNul_def pathLike_def validName_def currentWalletDirName_def)

text \<open>
  Both texts refuse the active wallet itself. src/main.go never reports \<open>NotFound\<close> from
  \<open>Switch\<close>; the program with \<open>Remove\<close> refuses every name that is no key, and a refusal
  leaves the record and the disk as they were.
\<close>

lemma Switch_main_refuses_active:
  "Switch_main c (CurrentWallet c) w = (Some (AlreadyActive (CurrentWallet c)), c, w)"
  by (simp add: Switch_main_def)

lemma Switch_main_never_NotFound:
  "fst (Switch_main c name w) \<noteq> Some (NotFound n)"
  by (auto simp add: Switch_main_def split: sum.splits)

lemma Switch_refuses:
  "(name = CurrentWallet c \<longrightarrow> Switch c name w = (Some (AlreadyActive name), c, w)) \<and>
   (name \<noteq> CurrentWallet c \<and> Wallets c name = None \<longrightarrow>
      Switch c name w = (Some (NotFound name), c, w))"
  by (auto simp add: Switch_def)

section \<open>Switching there and back (C3)\<close>

text \<open>
  C3, as stated, fails: for every record with two distinct wallets \<open>a\<close> and \<open>b\<close>, \<open>a\<close> active
  with its directory in the slot \<open>data\<close> and the directory of \<open>b\<close> under its name, \<open>Switch\<close> to
  \<open>b\<close> is said to rename \<open>data\<close> to \<open>a\<close> and \<open>b\<close> to \<open>data\<close>. \<open>Edit\<close> accepts any new name
  but the reserved one and, for the active wallet, touches no directory: it renames the
  active wallet \<open>a\<close> to a name of 256 bytes. The record and the disk are then as the claim
  describes them, and \<open>Switch\<close> to \<open>b\<close> fails: the directory takes no such name, the first
  rename is refused with \<open>ENAMETOOLONG\<close>, and record and disk stay as they were.
\<close>

theorem Switch_long_active_name:
  "Edit \<lparr>configFilePath = ''cfg'', WalletsDir = ''/w'', CurrentWallet = ''a'',
          Wallets = [''a'' \<mapsto> ''first'', ''b'' \<mapsto> ''second'']\<rparr> ''a''
        \<lparr>disk = [(''data'', Dir [(''salt'', File)]), (''b'', Dir [(''salt'', File)])],
           stdin = [longName, []], rangeOrder = []\<rparr>
   = (None,
      \<lparr>configFilePath = ''cfg'', WalletsDir = ''/w'', CurrentWallet = longName,
         Wallets = [''b'' \<mapsto> ''second'', longName \<mapsto> ''first'']\<rparr>,
      \<lparr>disk = [(''data'', Dir [(''salt'', File)]), (''b'', Dir [(''salt'', File)])],
         stdin = [], rangeOrder = []\<rparr>) \<and>
   Switch \<lparr>configFilePath = ''cfg'', WalletsDir = ''/w'', CurrentWallet = longName,
            Wallets = [''b'' \<mapsto> ''second'', longName \<mapsto> ''first'']\<rparr> ''b''
          \<lparr>disk = [(''data'', Dir [(''salt'', File)]), (''b'', Dir [(''salt'', File)])],
             stdin = [], rangeOrder = []\<rparr>
   = (Some (IOError ENAMETOOLONG),
      \<lparr>configFilePath = ''cfg'', WalletsDir = ''/w'', CurrentWallet = longName,
         Wallets = [''b'' \<mapsto> ''second'', longName \<mapsto> ''first'']\<rparr>,
      \<lparr>disk = [(''data'', Dir [(''salt'', File)]), (''b'', Dir [(''salt'', File)])],
         stdin = [], rangeOrder = []\<rparr>)"
proof -
  have ne: "longName \<noteq> ''a''" "longName \<noteq> ''b''" "longName \<noteq> ''data''" "longName \<noteq> []"
           "''a'' \<noteq> longName" "''b'' \<noteq> longName"
    using longName_differs[of "''a''"] longName_differs[of "''b''"]
      longName_differs[of "''data''"] longName_differs[of "[]"]
    by simp_all
  have m: "([''a'' \<mapsto> ''first'', ''b'' \<mapsto> ''second'', longName \<mapsto> ''first''])(''a'' := None)
           = [''b'' \<mapsto> ''second'', longName \<mapsto> ''first'']"
    using ne by (auto simp add: fun_eq_iff)
  have slot: "os_Stat ''data'' [(''data'', Dir [(''salt'', File)]), (''b'', Dir [(''salt'', File)])]
              = Inr (Dir [(''salt'', File)])"
    by (simp add: os_Stat_def hasNul_def pathLike_def)
  have edit: "Edit \<lparr>configFilePath = ''cfg'', WalletsDir = ''/w'', CurrentWallet = ''a'',
                     Wallets = [''a'' \<mapsto> ''first'', ''b'' \<mapsto> ''second'']\<rparr> ''a''
                   \<lparr>disk = [(''data'', Dir [(''salt'', File)]), (''b'', Dir [(''salt'', File)])],
                      stdin = [longName, []], rangeOrder = []\<rparr>
              = (None,
                 \<lparr>configFilePath = ''cfg'', WalletsDir = ''/w'', CurrentWallet = longName,
                    Wallets = [''b'' \<mapsto> ''second'', longName \<mapsto> ''first'']\<rparr>,
                 \<lparr>disk = [(''data'', Dir [(''salt'', File)]), (''b'', Dir [(''salt'', File)])],
                    stdin = [], rangeOrder = []\<rparr>)"
    using ne m
    by (simp add: Edit_def scanLine_def index_def Edit_store_def currentWalletDirName_def)
  have switch: "Switch \<lparr>configFilePath = ''cfg'', WalletsDir = ''/w'', CurrentWallet = longName,
                         Wallets = [''b'' \<mapsto> ''second'', longName \<mapsto> ''first'']\<rparr> ''b''
                       \<lparr>disk = [(''data'', Dir [(''salt'', File)]), (''b'', Dir [(''salt'', File)])],
                          stdin = [], rangeOrder = []\<rparr>
                = (Some (IOError ENAMETOOLONG),
                   \<lparr>configFilePath = ''cfg'', WalletsDir = ''/w'', CurrentWallet = longName,
                      Wallets = [''b'' \<mapsto> ''second'', longName \<mapsto> ''first'']\<rparr>,
                   \<lparr>disk = [(''data'', Dir [(''salt'', File)]), (''b'', Dir [(''salt'', File)])],
                      stdin = [], rangeOrder = []\<rparr>)"
    using ne os_Rename_to_longName[OF slot]
    by (simp add: Switch_def currentWalletDirName_def)
  from edit switch show ?thesis by simp
qed

text \<open>
  C3, amended: let \<open>a\<close> and \<open>b\<close> be two distinct wallets of the record, \<open>a\<close> a valid directory
  name (not empty, at most 255 bytes, without slash or NUL byte, neither \<open>.\<close> nor \<open>..\<close>)
  and the active wallet, with the node of \<open>a\<close> in the slot \<open>data\<close>, no entry \<open>a\<close> on disk,
  and the node of \<open>b\<close> under the name \<open>b\<close>, which is not the reserved name. Then \<open>Switch\<close> to
  \<open>b\<close> succeeds, renames \<open>data\<close> to \<open>a\<close> and \<open>b\<close> to \<open>data\<close>, and makes \<open>b\<close> the active
  wallet; \<open>Switch\<close> back to \<open>a\<close> succeeds too and gives back the record and a disk with the
  entries it had at first.
\<close>

theorem Switch_round_trip:
  assumes keys: "Wallets c a = Some da" "Wallets c b = Some db" "a \<noteq> b"
    and active: "CurrentWallet c = a" "validName a"
    and slot: "os_Stat currentWalletDirName (disk w) = Inr na"
    and other: "os_Stat b (disk w) = Inr nb" "b \<noteq> currentWalletDirName"
    and free: "os_Stat a (disk w) = Inl ENOENT"
  shows "\<exists>d1 d2.
           Switch c b w = (None, c\<lparr>CurrentWallet := b\<rparr>, w\<lparr>disk := d1\<rparr>) \<and>
           map_of d1 = (map_of (disk w))(a \<mapsto> na, b := None, currentWalletDirName \<mapsto> nb) \<and>
           Switch (c\<lparr>CurrentWallet := b\<rparr>) a (w\<lparr>disk := d1\<rparr>) = (None, c, w\<lparr>disk := d2\<rparr>) \<and>
           map_of d2 = map_of (disk w)"
proof -
  have ad: "a \<noteq> currentWalletDirName" using slot free by auto
  have ane: "a \<noteq> []" using active by (simp add: validName_def)
  have vb: "validName b" using other by (simp add: os_Stat_Inr)
  have bne: "b \<noteq> []" using vb by (simp add: validName_def)
  have vd: "validName currentWalletDirName" by (rule validName_currentWalletDirName)
  have dne: "currentWalletDirName \<noteq> []" using vd by (simp add: validName_def)
  define e1 where "e1 = AList.update a na (AList.delete currentWalletDirName (disk w))"
  define d1 where "d1 = AList.update currentWalletDirName nb (AList.delete b e1)"
  define e2 where "e2 = AList.update b nb (AList.delete currentWalletDirName d1)"
  define d2 where "d2 = AList.update currentWalletDirName na (AList.delete a e2)"
  have r1: "os_Rename currentWalletDirName a (disk w) = Inr e1"
    unfolding e1_def using slot free ane by (intro os_Rename_fresh) simp_all
  have r2: "os_Rename b currentWalletDirName e1 = Inr d1"
    unfolding d1_def using other keys ad dne vd
    by (intro os_Rename_fresh) (simp_all add: e1_def os_Stat_update os_Stat_delete)
  have r3: "os_Rename currentWalletDirName b d1 = Inr e2"
    unfolding e2_def using bne other vb vd
    by (intro os_Rename_fresh) (simp_all add: d1_def os_Stat_update os_Stat_delete)
  have r4: "os_Rename a currentWalletDirName e2 = Inr d2"
    unfolding d2_def using active keys ad dne other vd vb
    by (intro os_Rename_fresh) (simp_all add: e2_def d1_def e1_def os_Stat_update os_Stat_delete)
  have s1: "Switch c b w = (None, c\<lparr>CurrentWallet := b\<rparr>, w\<lparr>disk := d1\<rparr>)"
    using keys active ane r1 r2 by (simp add: Switch_def)
  have s2: "Switch (c\<lparr>CurrentWallet := b\<rparr>) a (w\<lparr>disk := d1\<rparr>) = (None, c, w\<lparr>disk := d2\<rparr>)"
    using keys active bne r3 r4 by (simp add: Switch_def)
  have m1: "map_of d1 = (map_of (disk w))(a \<mapsto> na, b := None, currentWalletDirName \<mapsto> nb)"
    using keys ad other
    by (simp add: d1_def e1_def update_conv' delete_conv' fun_eq_iff)
  have m2: "map_of d2 = map_of (disk w)"
    using keys ad other slot free active
    by (simp add: d2_def e2_def d1_def e1_def update_conv' delete_conv' fun_eq_iff
        os_Stat_Inr os_Stat_ENOENT validName_def)
  from s1 s2 m1 m2 show ?thesis by blast
qed

text \<open>The scenario of the specification: wallets \<open>a\<close> and \<open>b\<close>, \<open>a\<close> active in \<open>/w/data\<close>.\<close>

theorem Switch_round_trip_witness:
  "\<exists>d1 d2.
     Switch \<lparr>configFilePath = ''cfg'', WalletsDir = ''/w'', CurrentWallet = ''a'',
               Wallets = [''a'' \<mapsto> ''first'', ''b'' \<mapsto> ''second'']\<rparr> ''b''
            \<lparr>disk = [(''data'', Dir [(''salt'', File)]), (''b'', Dir [(''salt'', File), (''keys'', File)])],
               stdin = [], rangeOrder = []\<rparr>
       = (None,
          \<lparr>configFilePath = ''cfg'', WalletsDir = ''/w'', CurrentWallet = ''b'',
             Wallets = [''a'' \<mapsto> ''first'', ''b'' \<mapsto> ''second'']\<rparr>,
          \<lparr>disk = d1, stdin = [], rangeOrder = []\<rparr>) \<and>
     map_of d1 = [''a'' \<mapsto> Dir [(''salt'', File)], ''data'' \<mapsto> Dir [(''salt'', File), (''keys'', File)]] \<and>
     Switch \<lparr>configFilePath = ''cfg'', WalletsDir = ''/w'', CurrentWallet = ''b'',
               Wallets = [''a'' \<mapsto> ''first'', ''b'' \<mapsto> ''second'']\<rparr> ''a''
            \<lparr>disk = d1, stdin = [], rangeOrder = []\<rparr>
       = (None,
          \<lparr>configFilePath = ''cfg'', WalletsDir = ''/w'', CurrentWallet = ''a'',
             Wallets = [''a'' \<mapsto> ''first'', ''b'' \<mapsto> ''second'']\<rparr>,
          \<lparr>disk = d2, stdin = [], rangeOrder = []\<rparr>) \<and>
     map_of d2 = [''b'' \<mapsto> Dir [(''salt'', File), (''keys'', File)], ''data'' \<mapsto> Dir [(''salt'', File)]]"
  using Switch_round_trip
    [of "\<lparr>configFilePath = ''cfg'', WalletsDir = ''/w'', CurrentWallet = ''a'',
           Wallets = [''a'' \<mapsto> ''first'', ''b'' \<mapsto> ''second'']\<rparr>"
        "''a''" "''first''" "''b''" "''second''"
        "\<lparr>disk = [(''data'', Dir [(''salt'', File)]), (''b'', Dir [(''salt'', File), (''keys'', File)])],
           stdin = [], rangeOrder = []\<rparr>"
        "Dir [(''salt'', File)]" "Dir [(''salt'', File), (''keys'', File)]"]
  by (simp add: os_Stat_def hasNul_def pathLike_def validName_def currentWalletDirName_def)

section \<open>Adding activates (C4)\<close>

text \<open>
  C4 (as it fails in src/main.go): whenever \<open>Add\<close> returns success, the wallet that was
  just added is the active wallet. \<open>Add\<close> hands \<open>Switch\<close> the directory name, not the name
  the wallet was stored under. In src/main.go, on the empty record and an empty wallets
  directory, \<open>Add\<close> of \<open>data\<close> with the name \<open>x\<close> entered at the prompt stores the wallet
  \<open>x\<close>, returns success and leaves the reserved name \<open>data\<close> as the active wallet.
\<close>

theorem Add_main_reserved_name:
  "Add_main
     \<lparr>configFilePath = ''cfg'', WalletsDir = ''/w'', CurrentWallet = [], Wallets = Map.empty\<rparr>
     ''data''
     \<lparr>disk = [], stdin = [''x'', ''first''], rangeOrder = []\<rparr>
   = (None,
      \<lparr>configFilePath = ''cfg'', WalletsDir = ''/w'', CurrentWallet = ''data'', Wallets = [''x'' \<mapsto> ''first'']\<rparr>,
      \<lparr>disk = [], stdin = [], rangeOrder = []\<rparr>)"
  by (simp add: Add_main_def addWallet_main_def scanLine_def Switch_main_def os_Rename_def
      os_Stat_def hasNul_def pathLike_def validName_def currentWalletDirName_def)

text \<open>
  In the program with \<open>Remove\<close>, on a record that satisfies the invariant, a successful
  \<open>Add\<close> was handed a name other than the reserved one, stored the wallet under that very
  name and made it the active wallet; \<open>Add\<close> of the reserved name never succeeds there.
\<close>

lemma Add_activates:
  assumes "Add c dirName w = (None, c', w')" "lawful c"
  shows "CurrentWallet c' = dirName \<and> Wallets c' dirName \<noteq> None \<and> dirName \<noteq> currentWalletDirName"
  using assms
  by (auto simp add: Add_def addWallet_def Switch_def lawful_def scanLine_def
      split: if_splits prod.splits option.splits sum.splits list.splits dest: nameLoop_not_reserved)

section \<open>When \<open>Edit\<close> reports a missing wallet (C5)\<close>

text \<open>
  C5 (as it fails in src/main.go): \<open>Edit\<close> fails with \<open>NotFound\<close> exactly when the name is
  no key of the wallets map, whatever the description of the wallet. src/main.go tests
  the description against the empty string: for the wallet \<open>a\<close> with the empty
  description, which is a key, \<open>Edit\<close> fails with \<open>NotFound\<close> before it reads a line.
\<close>

theorem Edit_main_empty_description:
  "Edit_main
     \<lparr>configFilePath = ''cfg'', WalletsDir = ''/w'', CurrentWallet = [], Wallets = [''a'' \<mapsto> []]\<rparr>
     ''a''
     \<lparr>disk = [(''a'', Dir [(''salt'', File)])], stdin = [''b'', ''second''], rangeOrder = []\<rparr>
   = (Some (NotFound ''a''),
      \<lparr>configFilePath = ''cfg'', WalletsDir = ''/w'', CurrentWallet = [], Wallets = [''a'' \<mapsto> []]\<rparr>,
      \<lparr>disk = [(''a'', Dir [(''salt'', File)])], stdin = [''b'', ''second''], rangeOrder = []\<rparr>)"
  by (simp add: Edit_main_def index_def)

text \<open>So it is for every wallet with an empty description in src/main.go, in \<open>Edit\<close> and in
  \<open>Forget\<close>.\<close>

lemma Edit_main_undescribed:
  "Wallets c name = Some [] \<Longrightarrow> Edit_main c name w = (Some (NotFound name), c, w)"
  by (simp add: Edit_main_def index_def)

lemma Forget_main_undescribed:
  "Wallets c name = Some [] \<Longrightarrow> Forget_main c name w = (Some (NotFound name), c, w)"
  by (simp add: Forget_main_def index_def)

text \<open>The program with \<open>Remove\<close> tests the key: \<open>Edit\<close> reports \<open>NotFound\<close> exactly for the
  names that are no key.\<close>

lemma Edit_NotFound_iff:
  "fst (Edit c name w) = Some (NotFound n) \<longleftrightarrow> Wallets c name = None \<and> n = name"
  by (auto simp add: Edit_def split: prod.splits option.splits sum.splits)

section \<open>Forgetting the only wallet (C6)\<close>

text \<open>
  C6, as stated, fails: \<open>Forget\<close> of the active wallet that is the only key is said to
  succeed for every record. \<open>Forget\<close> passes on every error of the rename of the slot but
  a missing slot. With a directory \<open>a\<close> on disk beside the slot of the active wallet \<open>a\<close>,
  the rename is refused with \<open>EEXIST\<close>; for an active wallet with a name of 256 bytes it
  is refused with \<open>ENAMETOOLONG\<close>. Both times \<open>Forget\<close> fails and the record keeps its
  wallet and its active wallet.
\<close>

theorem Forget_refused_rename:
  "Forget \<lparr>configFilePath = ''cfg'', WalletsDir = ''/w'', CurrentWallet = ''a'',
            Wallets = [''a'' \<mapsto> ''first'']\<rparr> ''a''
          \<lparr>disk = [(''data'', Dir [(''salt'', File)]), (''a'', Dir [(''salt'', File)])],
             stdin = [], rangeOrder = [''a'']\<rparr>
   = (Some (IOError EEXIST),
      \<lparr>configFilePath = ''cfg'', WalletsDir = ''/w'', CurrentWallet = ''a'',
         Wallets = [''a'' \<mapsto> ''first'']\<rparr>,
      \<lparr>disk = [(''data'', Dir [(''salt'', File)]), (''a'', Dir [(''salt'', File)])],
         stdin = [], rangeOrder = [''a'']\<rparr>) \<and>
   Forget \<lparr>configFilePath = ''cfg'', WalletsDir = ''/w'', CurrentWallet = longName,
            Wallets = [longName \<mapsto> ''first'']\<rparr> longName
          \<lparr>disk = [(''data'', Dir [(''salt'', File)])], stdin = [], rangeOrder = [longName]\<rparr>
   = (Some (IOError ENAMETOOLONG),
      \<lparr>configFilePath = ''cfg'', WalletsDir = ''/w'', CurrentWallet = longName,
         Wallets = [longName \<mapsto> ''first'']\<rparr>,
      \<lparr>disk = [(''data'', Dir [(''salt'', File)])], stdin = [], rangeOrder = [longName]\<rparr>)"
proof -
  have slot: "os_Stat ''data'' [(''data'', Dir [(''salt'', File)])] = Inr (Dir [(''salt'', File)])"
    by (simp add: os_Stat_def hasNul_def pathLike_def)
  have first: "Forget \<lparr>configFilePath = ''cfg'', WalletsDir = ''/w'', CurrentWallet = ''a'',
                        Wallets = [''a'' \<mapsto> ''first'']\<rparr> ''a''
                      \<lparr>disk = [(''data'', Dir [(''salt'', File)]), (''a'', Dir [(''salt'', File)])],
                         stdin = [], rangeOrder = [''a'']\<rparr>
               = (Some (IOError EEXIST),
                  \<lparr>configFilePath = ''cfg'', WalletsDir = ''/w'', CurrentWallet = ''a'',
                     Wallets = [''a'' \<mapsto> ''first'']\<rparr>,
                  \<lparr>disk = [(''data'', Dir [(''salt'', File)]), (''a'', Dir [(''salt'', File)])],
                     stdin = [], rangeOrder = [''a'']\<rparr>)"
    by (simp add: Forget_def os_Rename_def os_Stat_def hasNul_def pathLike_def
        currentWalletDirName_def)
  have second: "Forget \<lparr>configFilePath = ''cfg'', WalletsDir = ''/w'', CurrentWallet = longName,
                         Wallets = [longName \<mapsto> ''first'']\<rparr> longName
                       \<lparr>disk = [(''data'', Dir [(''salt'', File)])], stdin = [],
                          rangeOrder = [longName]\<rparr>
                = (Some (IOError ENAMETOOLONG),
                   \<lparr>configFilePath = ''cfg'', WalletsDir = ''/w'', CurrentWallet = longName,
                      Wallets = [longName \<mapsto> ''first'']\<rparr>,
                   \<lparr>disk = [(''data'', Dir [(''salt'', File)])], stdin = [],
                      rangeOrder = [longName]\<rparr>)"
    using os_Rename_to_longName[OF slot]
    by (simp add: Forget_def currentWalletDirName_def)
  from first second show ?thesis by simp
qed

text \<open>
  The first of the two states is one the program makes itself: with \<open>a\<close> active in the slot
  and a wallet \<open>b\<close> in its directory, \<open>Edit\<close> of \<open>b\<close> takes \<open>a\<close> as the new name and renames
  the directory \<open>b\<close> to \<open>a\<close>.
\<close>

lemma Edit_onto_active_name:
  "Edit \<lparr>configFilePath = ''cfg'', WalletsDir = ''/w'', CurrentWallet = ''a'',
          Wallets = [''a'' \<mapsto> ''first'', ''b'' \<mapsto> ''second'']\<rparr> ''b''
        \<lparr>disk = [(''data'', Dir [(''salt'', File)]), (''b'', Dir [(''salt'', File)])],
           stdin = [''a'', ''first''], rangeOrder = []\<rparr>
   = (None,
      \<lparr>configFilePath = ''cfg'', WalletsDir = ''/w'', CurrentWallet = ''a'',
         Wallets = [''a'' \<mapsto> ''first'']\<rparr>,
      \<lparr>disk = [(''data'', Dir [(''salt'', File)]), (''a'', Dir [(''salt'', File)])],
         stdin = [], rangeOrder = []\<rparr>)"
proof -
  have m: "[''a'' \<mapsto> ''first'', ''b'' \<mapsto> ''second'', ''a'' \<mapsto> ''first''](''b'' := None)
           = [''a'' \<mapsto> ''first'']"
    by (simp add: fun_eq_iff)
  show ?thesis
    using m
    by (simp add: Edit_def scanLine_def index_def Edit_store_def os_Rename_def os_Stat_def
        hasNul_def pathLike_def currentWalletDirName_def)
qed

text \<open>
  C6, amended: let \<open>name\<close> be a valid directory name (not empty, at most 255 bytes, without
  slash or NUL byte, neither \<open>.\<close> nor \<open>..\<close>), the active wallet and the only key of the
  wallets map, with no entry of that name on disk. Then \<open>Forget\<close> succeeds, the wallets map
  is empty and no wallet is active afterwards; the node that was in the slot \<open>data\<close> is on
  disk under \<open>name\<close> and the slot is free, and a disk without the slot is left as it was.
\<close>

theorem Forget_only_active:
  assumes active: "CurrentWallet c = name" "validName name"
    and only: "dom (Wallets c) = {name}"
    and free: "os_Stat name (disk w) = Inl ENOENT"
  shows "\<exists>d. Forget c name w = (None, c\<lparr>Wallets := Map.empty, CurrentWallet := []\<rparr>, w\<lparr>disk := d\<rparr>) \<and>
           (case os_Stat currentWalletDirName (disk w) of
              Inr n \<Rightarrow> map_of d = (map_of (disk w))(currentWalletDirName := None, name \<mapsto> n)
            | Inl e \<Rightarrow> d = disk w)"
proof -
  have key: "Wallets c name \<noteq> None" using only by auto
  have gone: "(Wallets c)(name := None) = Map.empty" using only by (rule only_key_removed)
  have nne: "name \<noteq> []" using active by (simp add: validName_def)
  show ?thesis
  proof (cases "os_Stat currentWalletDirName (disk w)")
    case (Inl e)
    then have e: "e = ENOENT"
      by (simp add: os_Stat_valid[OF validName_currentWalletDirName] split: option.splits)
    have "os_Rename currentWalletDirName name (disk w) = Inl ENOENT"
      using Inl e active by (simp add: os_Rename_missing)
    then have "Forget c name w =
                 (None, c\<lparr>Wallets := Map.empty, CurrentWallet := []\<rparr>, w\<lparr>disk := disk w\<rparr>)"
      using key active gone by (simp add: Forget_def switchToFirstWallet_def find_no_key)
    then show ?thesis using Inl by (intro exI[of _ "disk w"]) simp
  next
    case (Inr n)
    define d where "d = AList.update name n (AList.delete currentWalletDirName (disk w))"
    have "os_Rename currentWalletDirName name (disk w) = Inr d"
      unfolding d_def using Inr free nne by (intro os_Rename_fresh) simp_all
    then have "Forget c name w =
                 (None, c\<lparr>Wallets := Map.empty, CurrentWallet := []\<rparr>, w\<lparr>disk := d\<rparr>)"
      using key active gone by (simp add: Forget_def switchToFirstWallet_def find_no_key)
    moreover have "map_of d = (map_of (disk w))(currentWalletDirName := None, name \<mapsto> n)"
      by (simp add: d_def update_conv' delete_conv')
    ultimately show ?thesis using Inr by (intro exI[of _ d]) simp
  qed
qed

theorem Forget_only_active_witness:
  "\<exists>d. Forget \<lparr>configFilePath = ''cfg'', WalletsDir = ''/w'', CurrentWallet = ''a'',
                Wallets = [''a'' \<mapsto> ''first'']\<rparr> ''a''
             \<lparr>disk = [(''data'', Dir [(''salt'', File)])], stdin = [], rangeOrder = [''a'']\<rparr>
        = (None,
           \<lparr>configFilePath = ''cfg'', WalletsDir = ''/w'', CurrentWallet = [], Wallets = Map.empty\<rparr>,
           \<lparr>disk = d, stdin = [], rangeOrder = [''a'']\<rparr>) \<and>
        map_of d = [''a'' \<mapsto> Dir [(''salt'', File)]]"
  using Forget_only_active
    [of "\<lparr>configFilePath = ''cfg'', WalletsDir = ''/w'', CurrentWallet = ''a'',
           Wallets = [''a'' \<mapsto> ''first'']\<rparr>"
        "''a''"
        "\<lparr>disk = [(''data'', Dir [(''salt'', File)])], stdin = [], rangeOrder = [''a'']\<rparr>"]
  by (simp add: os_Stat_def hasNul_def pathLike_def validName_def currentWalletDirName_def)

section \<open>Removing without confirmation (C7)\<close>

text \<open>
  C7: for a wallet \<open>a\<close> of the record, when the line read at the confirmation prompt of
  \<open>Remove\<close> is anything but \<open>yes\<close>, \<open>Remove\<close> fails with \<open>Aborted\<close>; the record is as it
  was, and so is the disk: only the line has been read.
\<close>

theorem Remove_not_confirmed:
  assumes "Wallets c a \<noteq> None" "stdin w = confirmation # rest" "confirmation \<noteq> ''yes''"
  shows "Remove c a w = (Some Aborted, c, w\<lparr>stdin := rest\<rparr>)"
  using assms by (simp add: Remove_def scanLine_def)

theorem Remove_not_confirmed_witness:
  "Remove \<lparr>configFilePath = ''cfg'', WalletsDir = ''/w'', CurrentWallet = ''a'',
            Wallets = [''a'' \<mapsto> ''first'']\<rparr> ''a''
          \<lparr>disk = [(''data'', Dir [(''salt'', File)])], stdin = [''no''], rangeOrder = []\<rparr>
   = (Some Aborted,
      \<lparr>configFilePath = ''cfg'', WalletsDir = ''/w'', CurrentWallet = ''a'',
         Wallets = [''a'' \<mapsto> ''first'']\<rparr>,
      \<lparr>disk = [(''data'', Dir [(''salt'', File)])], stdin = [], rangeOrder = []\<rparr>)"
  using Remove_not_confirmed
    [of "\<lparr>configFilePath = ''cfg'', WalletsDir = ''/w'', CurrentWallet = ''a'',
           Wallets = [''a'' \<mapsto> ''first'']\<rparr>"
        "''a''"
        "\<lparr>disk = [(''data'', Dir [(''salt'', File)])], stdin = [''no''], rangeOrder = []\<rparr>"
        "''no''" "[]"]
  by simp

section \<open>Adding a wallet that has no directory yet (C8)\<close>

text \<open>
  C8, as stated, fails: starting from the record with the root \<open>/w\<close>, no active wallet and
  no wallets, and with no directory \<open>/w/alpha\<close>, \<open>Add\<close> of \<open>alpha\<close> is said to leave a
  directory \<open>/w/data\<close> behind. On an empty wallets directory \<open>Add\<close> succeeds and there is
  no entry \<open>data\<close> afterwards: the rename of the missing \<open>alpha\<close> is tolerated and creates
  nothing.
\<close>

theorem Add_alpha_creates_no_slot:
  "fst (Add \<lparr>configFilePath = ''cfg'', WalletsDir = ''/w'', CurrentWallet = [], Wallets = Map.empty\<rparr>
            ''alpha''
            \<lparr>disk = [], stdin = [''first''], rangeOrder = []\<rparr>) = None \<and>
   os_Stat ''data''
     (disk (snd (snd (Add \<lparr>configFilePath = ''cfg'', WalletsDir = ''/w'', CurrentWallet = [],
                             Wallets = Map.empty\<rparr>
                          ''alpha''
                          \<lparr>disk = [], stdin = [''first''], rangeOrder = []\<rparr>)))) = Inl ENOENT"
  by (simp add: Add_def addWallet_def scanLine_def Switch_def os_Rename_def os_Stat_def
      hasNul_def pathLike_def currentWalletDirName_def)

text \<open>
  C8, amended: from that record, with no entry \<open>alpha\<close> on disk and a description on the
  input, \<open>Add\<close> of \<open>alpha\<close> succeeds; the record then maps \<open>alpha\<close> to the description
  entered and has \<open>alpha\<close> as the active wallet, and the disk is as it was: \<open>alpha\<close> still
  does not exist, and \<open>data\<close> exists afterwards exactly if it existed before.
\<close>

theorem Add_alpha:
  assumes "os_Stat ''alpha'' (disk w) = Inl ENOENT" "stdin w = description # rest"
  shows "Add \<lparr>configFilePath = p, WalletsDir = ''/w'', CurrentWallet = [], Wallets = Map.empty\<rparr>
             ''alpha'' w
         = (None,
            \<lparr>configFilePath = p, WalletsDir = ''/w'', CurrentWallet = ''alpha'',
               Wallets = [''alpha'' \<mapsto> description]\<rparr>,
            w\<lparr>stdin := rest\<rparr>)"
proof -
  have "os_Rename ''alpha'' currentWalletDirName (disk w) = Inl ENOENT"
    using assms(1) validName_currentWalletDirName by (rule os_Rename_missing)
  then show ?thesis
    using assms
    by (simp add: Add_def addWallet_def scanLine_def Switch_def currentWalletDirName_def)
qed

theorem Add_alpha_witness:
  "Add \<lparr>configFilePath = ''cfg'', WalletsDir = ''/w'', CurrentWallet = [], Wallets = Map.empty\<rparr>
       ''alpha''
       \<lparr>disk = [(''data'', Dir [(''salt'', File)])], stdin = [''first'', ''more''], rangeOrder = []\<rparr>
   = (None,
      \<lparr>configFilePath = ''cfg'', WalletsDir = ''/w'', CurrentWallet = ''alpha'',
         Wallets = [''alpha'' \<mapsto> ''first'']\<rparr>,
      \<lparr>disk = [(''data'', Dir [(''salt'', File)])], stdin = [''more''], rangeOrder = []\<rparr>)"
  using Add_alpha
    [of "\<lparr>disk = [(''data'', Dir [(''salt'', File)])], stdin = [''first'', ''more''], rangeOrder = []\<rparr>"
        "''first''" "[''more'']" "''cfg''"]
  by (simp add: os_Stat_def hasNul_def pathLike_def validName_def)

section \<open>Editing with both prompts left empty (C9)\<close>

text \<open>
  C9: for a wallet \<open>name\<close> of the record, other than the reserved name, \<open>Edit\<close> with two
  empty lines at its prompts succeeds and returns the record as it was, so the entry of
  \<open>name\<close> and the active wallet are unchanged, and the disk is untouched: only the two
  lines have been read.
\<close>

theorem Edit_defaults:
  assumes "Wallets c name = Some d" "name \<noteq> currentWalletDirName" "stdin w = [] # [] # rest"
  shows "Edit c name w = (None, c, w\<lparr>stdin := rest\<rparr>)"
proof -
  have st: "Edit_store c name name d = c"
    using assms(1) by (simp add: Edit_store_def map_upd_triv)
  show ?thesis
  proof (cases "CurrentWallet c = name")
    case True
    have "Edit_store (c\<lparr>CurrentWallet := name\<rparr>) name name d = c"
      using assms(1) True by (cases c) (simp add: Edit_store_def map_upd_triv)
    then show ?thesis
      using assms True by (simp add: Edit_def scanLine_def index_def)
  next
    case False
    then show ?thesis
      using assms st by (simp add: Edit_def scanLine_def index_def)
  qed
qed

theorem Edit_defaults_witness:
  "Edit \<lparr>configFilePath = ''cfg'', WalletsDir = ''/w'', CurrentWallet = ''a'',
          Wallets = [''a'' \<mapsto> ''first'', ''b'' \<mapsto> []]\<rparr> ''b''
        \<lparr>disk = [(''data'', Dir [(''salt'', File)]), (''b'', Dir [(''salt'', File)])],
           stdin = [[], []], rangeOrder = []\<rparr>
   = (None,
      \<lparr>configFilePath = ''cfg'', WalletsDir = ''/w'', CurrentWallet = ''a'',
         Wallets = [''a'' \<mapsto> ''first'', ''b'' \<mapsto> []]\<rparr>,
      \<lparr>disk = [(''data'', Dir [(''salt'', File)]), (''b'', Dir [(''salt'', File)])],
         stdin = [], rangeOrder = []\<rparr>)"
  using Edit_defaults
    [of "\<lparr>configFilePath = ''cfg'', WalletsDir = ''/w'', CurrentWallet = ''a'',
           Wallets = [''a'' \<mapsto> ''first'', ''b'' \<mapsto> []]\<rparr>"
        "''b''" "[]"
        "\<lparr>disk = [(''data'', Dir [(''salt'', File)]), (''b'', Dir [(''salt'', File)])],
           stdin = [[], []], rangeOrder = []\<rparr>"
        "[]"]
  by (simp add: currentWalletDirName_def)

section \<open>Renaming a wallet onto the name of another (C10)\<close>

text \<open>
  C10: \<open>Edit\<close> compares the new name with the reserved name only, never with the keys of
  the wallets map. Let \<open>a\<close> and \<open>b\<close> be two distinct keys, \<open>a\<close> not the active wallet, and
  let \<open>b\<close> be entered as the new name of \<open>a\<close>. Whenever the rename of the directory \<open>a\<close>
  to \<open>b\<close> goes through, \<open>Edit\<close> succeeds: it stores the new description of \<open>a\<close> (the line
  entered, or the old description of \<open>a\<close> for an empty line) under \<open>b\<close>, dropping the
  description \<open>b\<close> had, and deletes the key \<open>a\<close>, so the map has lost exactly the key
  \<open>a\<close>. src/main.go does the same for a wallet \<open>a\<close> whose description is not empty.
\<close>

theorem Edit_onto_existing_key:
  assumes "Wallets c a = Some da" "Wallets c b = Some db" "a \<noteq> b"
    and "CurrentWallet c \<noteq> a" "b \<noteq> currentWalletDirName" "b \<noteq> []"
    and "stdin w = b # line # rest"
    and "os_Rename a b (disk w) = Inr d"
  shows "Edit c a w =
           (None,
            c\<lparr>Wallets := ((Wallets c)(b \<mapsto> (if line = [] then da else line)))(a := None)\<rparr>,
            w\<lparr>stdin := rest, disk := d\<rparr>) \<and>
         dom (((Wallets c)(b \<mapsto> (if line = [] then da else line)))(a := None)) = dom (Wallets c) - {a} \<and>
         (da \<noteq> [] \<longrightarrow>
            Edit_main c a w =
              (None,
               c\<lparr>Wallets := ((Wallets c)(b \<mapsto> (if line = [] then da else line)))(a := None)\<rparr>,
               w\<lparr>stdin := rest, disk := d\<rparr>))"
  using assms by (auto simp add: Edit_def Edit_main_def scanLine_def index_def Edit_store_def)

text \<open>Two wallets \<open>a\<close> and \<open>b\<close>, neither active, the directory of \<open>b\<close> not on disk: the
  entry of \<open>b\<close> is overwritten and the map is left with the one key \<open>b\<close>.\<close>

theorem Edit_onto_existing_key_witness:
  "Edit \<lparr>configFilePath = ''cfg'', WalletsDir = ''/w'', CurrentWallet = [],
          Wallets = [''a'' \<mapsto> ''first'', ''b'' \<mapsto> ''second'']\<rparr> ''a''
        \<lparr>disk = [(''a'', Dir [(''salt'', File)])], stdin = [''b'', []], rangeOrder = []\<rparr>
   = (None,
      \<lparr>configFilePath = ''cfg'', WalletsDir = ''/w'', CurrentWallet = [],
         Wallets = [''b'' \<mapsto> ''first'']\<rparr>,
      \<lparr>disk = [(''b'', Dir [(''salt'', File)])], stdin = [], rangeOrder = []\<rparr>) \<and>
   dom [''b'' \<mapsto> ''first''] = dom [''a'' \<mapsto> ''first'', ''b'' \<mapsto> ''second''] - {''a''} \<and>
   Edit_main \<lparr>configFilePath = ''cfg'', WalletsDir = ''/w'', CurrentWallet = [],
               Wallets = [''a'' \<mapsto> ''first'', ''b'' \<mapsto> ''second'']\<rparr> ''a''
             \<lparr>disk = [(''a'', Dir [(''salt'', File)])], stdin = [''b'', []], rangeOrder = []\<rparr>
   = (None,
      \<lparr>configFilePath = ''cfg'', WalletsDir = ''/w'', CurrentWallet = [],
         Wallets = [''b'' \<mapsto> ''first'']\<rparr>,
      \<lparr>disk = [(''b'', Dir [(''salt'', File)])], stdin = [], rangeOrder = []\<rparr>)"
proof -
  have m: "[''a'' \<mapsto> ''first'', ''b'' \<mapsto> ''first''](''a'' := None) = [''b'' \<mapsto> ''first'']"
    by (simp add: fun_eq_iff)
  have m2: "[''a'' \<mapsto> ''first'', ''b'' \<mapsto> ''second'', ''b'' \<mapsto> ''first''](''a'' := None) = [''b'' \<mapsto> ''first'']"
    by (simp add: fun_eq_iff)
  show ?thesis
    using Edit_onto_existing_key
      [of "\<lparr>configFilePath = ''cfg'', WalletsDir = ''/w'', CurrentWallet = [],
             Wallets = [''a'' \<mapsto> ''first'', ''b'' \<mapsto> ''second'']\<rparr>"
          "''a''" "''first''" "''b''" "''second''"
          "\<lparr>disk = [(''a'', Dir [(''salt'', File)])], stdin = [''b'', []], rangeOrder = []\<rparr>"
          "[]" "[]" "[(''b'', Dir [(''salt'', File)])]"]
    by (simp add: os_Rename_def os_Stat_def hasNul_def pathLike_def validName_def currentWalletDirName_def m m2)
qed

text \<open>
  When the directory of \<open>b\<close> is on disk, as it is for a wallet that is not active, the
  rename is refused and \<open>Edit\<close> fails with the record unchanged: the collision is caught by
  the operating system, not by the program.
\<close>

lemma Edit_onto_existing_directory:
  assumes "Wallets c a = Some da" "a \<noteq> b" "CurrentWallet c \<noteq> a" "b \<noteq> currentWalletDirName"
    and "stdin w = b # line # rest"
    and "os_Stat a (disk w) = Inr n" "os_Stat b (disk w) = Inr (Dir entries)"
  shows "Edit c a w = (Some (IOError EEXIST), c, w\<lparr>stdin := rest\<rparr>)"
proof -
  have "b \<noteq> []" using assms(7) by (simp add: os_Stat_Inr validName_def)
  moreover have "os_Rename a b (disk w) = Inl EEXIST"
    using assms(6,7) by (rule os_Rename_onto_directory)
  ultimately show ?thesis
    using assms by (simp add: Edit_def scanLine_def)
qed

end
